theory Spec2Isabelle
  imports Complex_Main "HOL-Library.Monad_Syntax"
begin

section \<open>Number model\<close>

text \<open>
  The C++ object model computes with \<open>double\<close>, the shader with \<open>float\<close>. Both are
  modelled by \<^typ>\<open>real\<close>: rounding, overflow and NaN propagation are not part of this
  development. The one event of IEEE arithmetic that is kept is a division whose divisor
  is zero: it has no real value (the machine produces an infinity or a NaN), so a
  computation that performs one has the result \<open>None\<close>.
\<close>

definition fdiv :: "real \<Rightarrow> real \<Rightarrow> real option" where
  "fdiv a b = (if b = 0 then None else Some (a / b))"

text \<open>\<open>std::min(a, b)\<close> is \<open>(b < a) ? b : a\<close> and \<open>std::max(a, b)\<close> is
  \<open>(a < b) ? b : a\<close> in the C++ standard library.\<close>

definition std_min :: "real \<Rightarrow> real \<Rightarrow> real" where
  "std_min a b = (if b < a then b else a)"

definition std_max :: "real \<Rightarrow> real \<Rightarrow> real" where
  "std_max a b = (if a < b then b else a)"

definition std_abs :: "real \<Rightarrow> real" where
  "std_abs a = (if a < 0 then - a else a)"

section \<open>Vec3 (include/ImplicitSurfaces.h)\<close>

text \<open>The fields \<open>x\<close>, \<open>y\<close>, \<open>z\<close> of the class are the selectors \<open>vx\<close>, \<open>vy\<close>, \<open>vz\<close>.\<close>

datatype vec3 = Vec3 (vx: real) (vy: real) (vz: real)

definition vlength :: "vec3 \<Rightarrow> real" where
  "vlength v = sqrt (vx v * vx v + vy v * vy v + vz v * vz v)"

definition normalize :: "vec3 \<Rightarrow> vec3 option" where
  "normalize v =
     (let len = vlength v in
      if len = 0 then Some v
      else do {
        a \<leftarrow> fdiv (vx v) len;
        b \<leftarrow> fdiv (vy v) len;
        c \<leftarrow> fdiv (vz v) len;
        Some (Vec3 a b c)
      })"

definition vadd :: "vec3 \<Rightarrow> vec3 \<Rightarrow> vec3" where
  "vadd a b = Vec3 (vx a + vx b) (vy a + vy b) (vz a + vz b)"

definition vsub :: "vec3 \<Rightarrow> vec3 \<Rightarrow> vec3" where
  "vsub a b = Vec3 (vx a - vx b) (vy a - vy b) (vz a - vz b)"

definition vscale :: "vec3 \<Rightarrow> real \<Rightarrow> vec3" where
  "vscale a s = Vec3 (vx a * s) (vy a * s) (vz a * s)"

definition dot :: "vec3 \<Rightarrow> vec3 \<Rightarrow> real" where
  "dot a b = vx a * vx b + vy a * vy b + vz a * vz b"

section \<open>The surface tree (include/ImplicitSurfaces.h)\<close>

text \<open>
  One constructor per concrete subclass of \<open>ImplicitSurface\<close>, holding the private
  members in declaration order. The children of a boolean operation are the two
  \<open>shared_ptr\<close> members \<open>left\<close> and \<open>right\<close>; the last argument of a smooth
  operation is its member \<open>k\<close>. The vector of a \<open>Plane\<close> is its member \<open>normal\<close>, that
  is, the constructor's argument after \<open>normalize\<close>.
\<close>

datatype surface =
    Sphere vec3 real
  | Box vec3 vec3 real
  | Plane vec3 real
  | Cylinder vec3 vec3 real
  | UnionOp surface surface
  | IntersectionOp surface surface
  | DifferenceOp surface surface
  | SmoothUnionOp surface surface real
  | SmoothIntersectionOp surface surface real
  | SmoothDifferenceOp surface surface real

text \<open>
  The locals of \<open>Cylinder::evaluate\<close> after line 150: the normalized \<open>axis\<close>, the
  clamped \<open>dot\<close> and \<open>closestPoint\<close>.
\<close>

definition cylinder_locals :: "vec3 \<Rightarrow> vec3 \<Rightarrow> vec3 \<Rightarrow> (vec3 \<times> real \<times> vec3) option" where
  "cylinder_locals start end point =
     (let axis0 = vsub end start;
          length = vlength axis0
      in do {
        axis \<leftarrow> normalize axis0;
        let relativePos = vsub point start;
        let d0 = dot relativePos axis;
        let d = std_max 0 (std_min length d0);
        let closestPoint = vadd start (vscale axis d);
        Some (axis, d, closestPoint)
      })"

text \<open>
  The bodies of the three smooth \<open>evaluate\<close> methods once the children have been
  evaluated: arguments are \<open>k\<close>, \<open>leftVal\<close> and \<open>rightVal\<close> (for the difference,
  \<open>rightVal\<close> is already negated, as on line 261). \<open>smooth_h\<close> is the local \<open>h\<close>, whose
  expression is the same in all three.
\<close>

definition smooth_h :: "real \<Rightarrow> real \<Rightarrow> real \<Rightarrow> real option" where
  "smooth_h k leftVal rightVal = fdiv (std_max (k - std_abs (leftVal - rightVal)) 0) k"

definition SmoothUnionOp_body :: "real \<Rightarrow> real \<Rightarrow> real \<Rightarrow> real option" where
  "SmoothUnionOp_body k leftVal rightVal =
     do {
       h \<leftarrow> smooth_h k leftVal rightVal;
       Some (std_min leftVal rightVal - h * h * h * k * (1 / 6))
     }"

definition SmoothIntersectionOp_body :: "real \<Rightarrow> real \<Rightarrow> real \<Rightarrow> real option" where
  "SmoothIntersectionOp_body k leftVal rightVal =
     do {
       h \<leftarrow> smooth_h k leftVal rightVal;
       Some (std_max leftVal rightVal + h * h * h * k * (1 / 6))
     }"

definition SmoothDifferenceOp_body :: "real \<Rightarrow> real \<Rightarrow> real \<Rightarrow> real option" where
  "SmoothDifferenceOp_body k leftVal rightVal =
     do {
       h \<leftarrow> smooth_h k leftVal rightVal;
       Some (std_max leftVal rightVal + h * h * h * k * (1 / 6))
     }"

fun evaluate :: "surface \<Rightarrow> vec3 \<Rightarrow> real option" where
  "evaluate (Sphere center radius) point =
     (let diff = vsub point center in Some (vlength diff - radius))"
| "evaluate (Box center dimensions smoothing) point =
     (let d = Vec3 (std_abs (vx point - vx center) - vx dimensions)
                   (std_abs (vy point - vy center) - vy dimensions)
                   (std_abs (vz point - vz center) - vz dimensions);
          dMax = Vec3 (std_max (vx d) 0) (std_max (vy d) 0) (std_max (vz d) 0)
      in Some (vlength dMax + std_min (std_max (vx d) (std_max (vy d) (vz d))) 0 - smoothing))"
| "evaluate (Plane normal distance) point = Some (dot normal point + distance)"
| "evaluate (Cylinder start end radius) point =
     do {
       (axis, d, closestPoint) \<leftarrow> cylinder_locals start end point;
       Some (vlength (vsub point closestPoint) - radius)
     }"
| "evaluate (UnionOp left right) point =
     do {
       leftVal \<leftarrow> evaluate left point;
       rightVal \<leftarrow> evaluate right point;
       Some (std_min leftVal rightVal)
     }"
| "evaluate (IntersectionOp left right) point =
     do {
       leftVal \<leftarrow> evaluate left point;
       rightVal \<leftarrow> evaluate right point;
       Some (std_max leftVal rightVal)
     }"
| "evaluate (DifferenceOp left right) point =
     do {
       leftVal \<leftarrow> evaluate left point;
       rightVal \<leftarrow> evaluate right point;
       Some (std_max leftVal (- rightVal))
     }"
| "evaluate (SmoothUnionOp left right k) point =
     do {
       leftVal \<leftarrow> evaluate left point;
       rightVal \<leftarrow> evaluate right point;
       SmoothUnionOp_body k leftVal rightVal
     }"
| "evaluate (SmoothIntersectionOp left right k) point =
     do {
       leftVal \<leftarrow> evaluate left point;
       rightVal \<leftarrow> evaluate right point;
       SmoothIntersectionOp_body k leftVal rightVal
     }"
| "evaluate (SmoothDifferenceOp left right k) point =
     do {
       leftVal \<leftarrow> evaluate left point;
       r \<leftarrow> evaluate right point;
       let rightVal = - r;
       SmoothDifferenceOp_body k leftVal rightVal
     }"

text \<open>
  The constructors of the smooth operations (lines 214-217, 234-237, 254-257) store
  \<open>smoothFactor\<close> in \<open>k\<close>. A C++ constructor either returns the object or throws; the
  result type has \<open>Inl\<close> for a thrown message. None of the three has a \<open>throw\<close>.
\<close>

definition new_SmoothUnionOp :: "surface \<Rightarrow> surface \<Rightarrow> real \<Rightarrow> string + surface" where
  "new_SmoothUnionOp left right smoothFactor = Inr (SmoothUnionOp left right smoothFactor)"

definition new_SmoothIntersectionOp :: "surface \<Rightarrow> surface \<Rightarrow> real \<Rightarrow> string + surface" where
  "new_SmoothIntersectionOp left right smoothFactor =
     Inr (SmoothIntersectionOp left right smoothFactor)"

definition new_SmoothDifferenceOp :: "surface \<Rightarrow> surface \<Rightarrow> real \<Rightarrow> string + surface" where
  "new_SmoothDifferenceOp left right smoothFactor =
     Inr (SmoothDifferenceOp left right smoothFactor)"

section \<open>Ray-marching parameters (src/Renderer.cpp, shaders/fragment.frag)\<close>

text \<open>
  The three members \<open>maxSteps\<close>, \<open>maxDistance\<close>, \<open>epsilon\<close> of \<open>ImplicitRenderer\<close>, which
  \<open>render\<close> uploads unchanged into the shader uniforms of the same names. The other
  members of the class are the extension part of the record. \<open>maxSteps\<close> is a 32-bit
  \<open>int\<close> on both sides; the loop below only increments a counter that is smaller than
  \<open>maxSteps\<close>, so it cannot overflow and \<^typ>\<open>int\<close> is exact.
\<close>

record raymarch_params =
  maxSteps :: int
  maxDistance :: real
  epsilon :: real

text \<open>The member initializers of the constructor \<open>ImplicitRenderer::ImplicitRenderer\<close>.\<close>

definition default_params :: raymarch_params where
  "default_params = \<lparr>maxSteps = 100, maxDistance = 100, epsilon = 1 / 1000\<rparr>"

text \<open>\<open>ImplicitRenderer::setRaymarchingParams\<close>: three assignments, no \<open>throw\<close>.\<close>

definition setRaymarchingParams ::
  "int \<Rightarrow> real \<Rightarrow> real \<Rightarrow> 'a raymarch_params_scheme \<Rightarrow> string + 'a raymarch_params_scheme" where
  "setRaymarchingParams steps distance eps r =
     Inr (r\<lparr>maxSteps := steps, maxDistance := distance, epsilon := eps\<rparr>)"

section \<open>The shader (shaders/fragment.frag and the common shader text)\<close>

text \<open>GLSL built-ins: \<open>clamp(x, lo, hi) = min(max(x, lo), hi)\<close> and
  \<open>mix(x, y, a) = x * (1 - a) + y * a\<close>.\<close>

definition glsl_clamp :: "real \<Rightarrow> real \<Rightarrow> real \<Rightarrow> real" where
  "glsl_clamp v lo hi = min (max v lo) hi"

definition glsl_mix :: "real \<Rightarrow> real \<Rightarrow> real \<Rightarrow> real" where
  "glsl_mix a b t = a * (1 - t) + b * t"

definition smoothUnionOp :: "real \<Rightarrow> real \<Rightarrow> real \<Rightarrow> real option" where
  "smoothUnionOp d1 d2 k =
     do {
       q \<leftarrow> fdiv (1 / 2 * (d2 - d1)) k;
       let h = glsl_clamp (1 / 2 + q) 0 1;
       Some (glsl_mix d2 d1 h - k * h * (1 - h))
     }"

text \<open>
  The result of \<open>rayMarch\<close>: the returned float, the \<open>out\<close> parameter \<open>steps\<close>, and two
  observations of the run that the shader does not return: the value of the local
  \<open>depth\<close> when the function returns and the number of calls of \<open>sceneSDF\<close> made.
\<close>

record march_result =
  ret :: real
  out_steps :: int
  final_depth :: real
  sdf_calls :: nat

text \<open>
  The \<open>for\<close> loop of \<open>rayMarch\<close> from the state \<open>(i, depth, steps)\<close>; \<open>n\<close> counts the calls
  of \<open>sceneSDF\<close> so far. \<open>sceneSDF\<close> is declared without a body in fragment.frag (each
  scene supplies one) and is a parameter here. The point \<open>ro + depth * rd\<close> is
  \<open>vadd ro (vscale rd depth)\<close>.
\<close>

function rayMarch_loop ::
  "(vec3 \<Rightarrow> real) \<Rightarrow> 'a raymarch_params_scheme \<Rightarrow> vec3 \<Rightarrow> vec3 \<Rightarrow> int \<Rightarrow> real \<Rightarrow> int \<Rightarrow> nat
     \<Rightarrow> march_result" where
  "rayMarch_loop sceneSDF u ro rd i depth steps n =
     (if i < maxSteps u then
        (let p = vadd ro (vscale rd depth);
             dist = sceneSDF p
         in if dist < epsilon u
            then \<lparr>ret = depth, out_steps = i, final_depth = depth, sdf_calls = Suc n\<rparr>
            else if maxDistance u \<le> depth + dist
            then \<lparr>ret = maxDistance u, out_steps = maxSteps u,
                  final_depth = depth + dist, sdf_calls = Suc n\<rparr>
            else rayMarch_loop sceneSDF u ro rd (i + 1) (depth + dist) i (Suc n))
      else \<lparr>ret = maxDistance u, out_steps = steps, final_depth = depth, sdf_calls = n\<rparr>)"
  by pat_completeness auto
termination
  by (relation "measure (\<lambda>(sceneSDF, u, ro, rd, i, depth, steps, n). nat (maxSteps u - i))") auto

declare rayMarch_loop.simps [simp del]

definition rayMarch :: "(vec3 \<Rightarrow> real) \<Rightarrow> 'a raymarch_params_scheme \<Rightarrow> vec3 \<Rightarrow> vec3 \<Rightarrow> march_result" where
  "rayMarch sceneSDF u ro rd = rayMarch_loop sceneSDF u ro rd 0 0 0 0"

text \<open>The test \<open>dist < maxDistance\<close> in \<open>main\<close> of the shader: a hit is shaded, anything
  else is background.\<close>

definition is_hit :: "'a raymarch_params_scheme \<Rightarrow> march_result \<Rightarrow> bool" where
  "is_hit u r = (ret r < maxDistance u)"

text \<open>
  The run of the loop as a sequence: \<open>depth_at j\<close> is the value of the local \<open>depth\<close>
  at the start of pass \<open>j\<close> when no earlier pass returned, \<open>dist_at j\<close> the value
  \<open>sceneSDF\<close> gives there, and \<open>no_exit j\<close> says that pass \<open>j\<close> takes neither
  \<open>return\<close>.
\<close>

fun depth_at :: "(vec3 \<Rightarrow> real) \<Rightarrow> vec3 \<Rightarrow> vec3 \<Rightarrow> nat \<Rightarrow> real" where
  "depth_at sceneSDF ro rd 0 = 0"
| "depth_at sceneSDF ro rd (Suc j) =
     depth_at sceneSDF ro rd j + sceneSDF (vadd ro (vscale rd (depth_at sceneSDF ro rd j)))"

definition dist_at :: "(vec3 \<Rightarrow> real) \<Rightarrow> vec3 \<Rightarrow> vec3 \<Rightarrow> nat \<Rightarrow> real" where
  "dist_at sceneSDF ro rd j = sceneSDF (vadd ro (vscale rd (depth_at sceneSDF ro rd j)))"

definition no_exit :: "(vec3 \<Rightarrow> real) \<Rightarrow> 'a raymarch_params_scheme \<Rightarrow> vec3 \<Rightarrow> vec3 \<Rightarrow> nat \<Rightarrow> bool" where
  "no_exit sceneSDF u ro rd j \<longleftrightarrow>
     \<not> dist_at sceneSDF ro rd j < epsilon u \<and>
     \<not> maxDistance u \<le> depth_at sceneSDF ro rd (Suc j)"

section \<open>Trees that have a value\<close>

text \<open>
  The only division of \<open>evaluate\<close> that is not guarded is the one by \<open>k\<close> in the smooth
  operations. \<open>smooth_factors_nonzero s\<close> says that no smooth operation in the tree \<open>s\<close>
  has \<open>k = 0\<close>.
\<close>

fun smooth_factors_nonzero :: "surface \<Rightarrow> bool" where
  "smooth_factors_nonzero (UnionOp l r) \<longleftrightarrow>
     smooth_factors_nonzero l \<and> smooth_factors_nonzero r"
| "smooth_factors_nonzero (IntersectionOp l r) \<longleftrightarrow>
     smooth_factors_nonzero l \<and> smooth_factors_nonzero r"
| "smooth_factors_nonzero (DifferenceOp l r) \<longleftrightarrow>
     smooth_factors_nonzero l \<and> smooth_factors_nonzero r"
| "smooth_factors_nonzero (SmoothUnionOp l r k) \<longleftrightarrow>
     smooth_factors_nonzero l \<and> smooth_factors_nonzero r \<and> k \<noteq> 0"
| "smooth_factors_nonzero (SmoothIntersectionOp l r k) \<longleftrightarrow>
     smooth_factors_nonzero l \<and> smooth_factors_nonzero r \<and> k \<noteq> 0"
| "smooth_factors_nonzero (SmoothDifferenceOp l r k) \<longleftrightarrow>
     smooth_factors_nonzero l \<and> smooth_factors_nonzero r \<and> k \<noteq> 0"
| "smooth_factors_nonzero _ \<longleftrightarrow> True"

section \<open>Basic facts\<close>

lemma std_min_eq: "std_min a b = min a b"
  by (simp add: std_min_def min_def)

lemma std_max_eq: "std_max a b = max a b"
  by (simp add: std_max_def max_def)

lemma std_abs_eq: "std_abs a = \<bar>a\<bar>"
  by (simp add: std_abs_def abs_if)

lemma vlength_zero_iff: "vlength v = 0 \<longleftrightarrow> v = Vec3 0 0 0"
  by (cases v) (simp add: vlength_def add_nonneg_eq_0_iff)

lemma vlength_axis:
  "vlength (Vec3 c 0 0) = \<bar>c\<bar>" "vlength (Vec3 0 c 0) = \<bar>c\<bar>" "vlength (Vec3 0 0 c) = \<bar>c\<bar>"
  by (simp_all add: vlength_def)

lemma normalize_eq:
  "normalize v =
     Some (if vlength v = 0 then v
           else Vec3 (vx v / vlength v) (vy v / vlength v) (vz v / vlength v))"
  by (simp add: normalize_def fdiv_def Let_def)

lemma smooth_h_eq:
  "smooth_h k a b = (if k = 0 then None else Some (max (k - \<bar>a - b\<bar>) 0 / k))"
  by (simp add: smooth_h_def fdiv_def std_max_eq std_abs_eq)

lemma SmoothUnionOp_body_eq:
  "SmoothUnionOp_body k a b =
     (if k = 0 then None else Some (min a b - (max (k - \<bar>a - b\<bar>) 0 / k) ^ 3 * k / 6))"
  by (simp add: SmoothUnionOp_body_def smooth_h_eq std_min_eq power3_eq_cube)

lemma SmoothIntersectionOp_body_eq:
  "SmoothIntersectionOp_body k a b =
     (if k = 0 then None else Some (max a b + (max (k - \<bar>a - b\<bar>) 0 / k) ^ 3 * k / 6))"
  by (simp add: SmoothIntersectionOp_body_def smooth_h_eq std_max_eq power3_eq_cube)

lemma SmoothDifferenceOp_body_eq:
  "SmoothDifferenceOp_body k a b =
     (if k = 0 then None else Some (max a b + (max (k - \<bar>a - b\<bar>) 0 / k) ^ 3 * k / 6))"
  by (simp add: SmoothDifferenceOp_body_def smooth_h_eq std_max_eq power3_eq_cube)

lemma cylinder_locals_total: "\<exists>a d c. cylinder_locals s e p = Some (a, d, c)"
  by (simp add: cylinder_locals_def normalize_eq Let_def)

text \<open>A tree has a value at a point exactly when none of its smooth factors is zero;
  in particular this does not depend on the point.\<close>

lemma evaluate_None_iff: "evaluate s p = None \<longleftrightarrow> \<not> smooth_factors_nonzero s"
proof (induction s)
  case (Cylinder s e r)
  obtain a d c where "cylinder_locals s e p = Some (a, d, c)"
    using cylinder_locals_total by blast
  then show ?case
    by simp
qed (auto simp: Let_def SmoothUnionOp_body_eq SmoothIntersectionOp_body_eq
       SmoothDifferenceOp_body_eq bind_eq_None_conv)

lemma evaluate_total: "smooth_factors_nonzero s \<Longrightarrow> \<exists>v. evaluate s p = Some v"
  using evaluate_None_iff [of s p] by auto

lemma blend_term_bounds:
  fixes k d :: real
  assumes "0 < k"
  shows "0 \<le> (max (k - \<bar>d\<bar>) 0 / k) ^ 3 * k / 6"
    and "(max (k - \<bar>d\<bar>) 0 / k) ^ 3 * k / 6 \<le> k / 6"
proof -
  let ?h = "max (k - \<bar>d\<bar>) 0 / k"
  have h0: "0 \<le> ?h"
    using assms by (intro divide_nonneg_pos) simp_all
  have "max (k - \<bar>d\<bar>) 0 \<le> k"
    using assms by (simp add: max_def)
  then have h1: "?h \<le> 1"
    using assms by (simp add: divide_le_eq_1)
  have c0: "0 \<le> ?h ^ 3"
    using h0 by simp
  have c1: "?h ^ 3 \<le> 1"
    using h0 h1 by (simp add: power_le_one)
  show "0 \<le> ?h ^ 3 * k / 6"
    using c0 assms by simp
  have "?h ^ 3 * k \<le> 1 * k"
    using c1 assms by (intro mult_right_mono) simp_all
  then show "?h ^ 3 * k / 6 \<le> k / 6"
    by simp
qed

lemma smooth_union_close:
  assumes "evaluate A p = Some a" and "evaluate B p = Some b" and "0 < k"
  shows "\<exists>s u. evaluate (SmoothUnionOp A B k) p = Some s \<and>
               evaluate (UnionOp A B) p = Some u \<and> \<bar>s - u\<bar> \<le> k / 6"
  using assms blend_term_bounds [of k "a - b"]
  by (simp add: SmoothUnionOp_body_eq std_min_eq)

lemma smooth_intersection_close:
  assumes "evaluate A p = Some a" and "evaluate B p = Some b" and "0 < k"
  shows "\<exists>s u. evaluate (SmoothIntersectionOp A B k) p = Some s \<and>
               evaluate (IntersectionOp A B) p = Some u \<and> \<bar>s - u\<bar> \<le> k / 6"
  using assms blend_term_bounds [of k "a - b"]
  by (simp add: SmoothIntersectionOp_body_eq std_max_eq)

lemma smooth_difference_close:
  assumes "evaluate A p = Some a" and "evaluate B p = Some b" and "0 < k"
  shows "\<exists>s u. evaluate (SmoothDifferenceOp A B k) p = Some s \<and>
               evaluate (DifferenceOp A B) p = Some u \<and> \<bar>s - u\<bar> \<le> k / 6"
  using assms blend_term_bounds [of k "a - (- b)"]
  by (simp add: SmoothDifferenceOp_body_eq std_max_eq)

lemma tendsto_of_bound:
  fixes f :: "real \<Rightarrow> real"
  assumes bound: "\<And>k. 0 < k \<Longrightarrow> \<bar>f k - L\<bar> \<le> k / 6"
  shows "(f \<longlongrightarrow> L) (at_right 0)"
proof (rule real_tendsto_sandwich [where f = "\<lambda>k. L - k / 6" and h = "\<lambda>k. L + k / 6"])
  have lo: "L - k / 6 \<le> f k" and hi: "f k \<le> L + k / 6" if "0 < k" for k
    using bound [OF that] by linarith+
  show "eventually (\<lambda>k. L - k / 6 \<le> f k) (at_right 0)"
    unfolding eventually_at_right_field using lo by (intro exI [of _ 1]) simp
  show "eventually (\<lambda>k. f k \<le> L + k / 6) (at_right 0)"
    unfolding eventually_at_right_field using hi by (intro exI [of _ 1]) simp
  show "((\<lambda>k. L - k / 6) \<longlongrightarrow> L) (at_right 0)"
    by (auto intro!: tendsto_eq_intros)
  show "((\<lambda>k. L + k / 6) \<longlongrightarrow> L) (at_right 0)"
    by (auto intro!: tendsto_eq_intros)
qed

lemma rayMarch_loop_done:
  "\<not> i < maxSteps u \<Longrightarrow>
   rayMarch_loop sdf u ro rd i depth steps n =
     \<lparr>ret = maxDistance u, out_steps = steps, final_depth = depth, sdf_calls = n\<rparr>"
  by (subst rayMarch_loop.simps) simp

lemma rayMarch_loop_hit:
  "i < maxSteps u \<Longrightarrow> sdf (vadd ro (vscale rd depth)) < epsilon u \<Longrightarrow>
   rayMarch_loop sdf u ro rd i depth steps n =
     \<lparr>ret = depth, out_steps = i, final_depth = depth, sdf_calls = Suc n\<rparr>"
  by (subst rayMarch_loop.simps) simp

lemma rayMarch_loop_far:
  "i < maxSteps u \<Longrightarrow> \<not> sdf (vadd ro (vscale rd depth)) < epsilon u \<Longrightarrow>
   maxDistance u \<le> depth + sdf (vadd ro (vscale rd depth)) \<Longrightarrow>
   rayMarch_loop sdf u ro rd i depth steps n =
     \<lparr>ret = maxDistance u, out_steps = maxSteps u,
      final_depth = depth + sdf (vadd ro (vscale rd depth)), sdf_calls = Suc n\<rparr>"
  by (subst rayMarch_loop.simps) simp

lemma rayMarch_loop_continue:
  "i < maxSteps u \<Longrightarrow> \<not> sdf (vadd ro (vscale rd depth)) < epsilon u \<Longrightarrow>
   \<not> maxDistance u \<le> depth + sdf (vadd ro (vscale rd depth)) \<Longrightarrow>
   rayMarch_loop sdf u ro rd i depth steps n =
     rayMarch_loop sdf u ro rd (i + 1) (depth + sdf (vadd ro (vscale rd depth))) i (Suc n)"
  by (subst rayMarch_loop.simps) simp

text \<open>After \<open>m\<close> passes without a \<open>return\<close> the loop is in the state
  \<open>(i, depth, steps) = (m, depth_at m, m - 1)\<close>, with \<open>steps = 0\<close> when \<open>m = 0\<close>.\<close>

lemma rayMarch_advance:
  assumes "\<forall>j<m. no_exit sdf u ro rd j" and "int m \<le> maxSteps u"
  shows "rayMarch sdf u ro rd =
           rayMarch_loop sdf u ro rd (int m) (depth_at sdf ro rd m)
             (if m = 0 then 0 else int m - 1) m"
  using assms
proof (induction m)
  case 0
  show ?case
    by (simp add: rayMarch_def)
next
  case (Suc m)
  have prev: "rayMarch sdf u ro rd =
      rayMarch_loop sdf u ro rd (int m) (depth_at sdf ro rd m) (if m = 0 then 0 else int m - 1) m"
    using Suc by simp
  have ne: "no_exit sdf u ro rd m" and lt: "int m < maxSteps u"
    using Suc.prems by simp_all
  have "rayMarch_loop sdf u ro rd (int m) (depth_at sdf ro rd m) (if m = 0 then 0 else int m - 1) m
        = rayMarch_loop sdf u ro rd (int m + 1) (depth_at sdf ro rd (Suc m)) (int m) (Suc m)"
    using ne lt by (subst rayMarch_loop_continue) (simp_all add: no_exit_def dist_at_def)
  with prev show ?case
    by (simp add: add.commute)
qed

text \<open>Every run either takes no exit in any pass, or has a first pass that takes one
  of the two exits.\<close>

lemma rayMarch_exit_cases:
  "(\<forall>j. int j < maxSteps u \<longrightarrow> no_exit sdf u ro rd j) \<or>
   (\<exists>m. int m < maxSteps u \<and> (\<forall>j<m. no_exit sdf u ro rd j) \<and>
        (dist_at sdf ro rd m < epsilon u \<or>
         \<not> dist_at sdf ro rd m < epsilon u \<and> maxDistance u \<le> depth_at sdf ro rd (Suc m)))"
proof (cases "\<forall>j. int j < maxSteps u \<longrightarrow> no_exit sdf u ro rd j")
  case True
  then show ?thesis
    by blast
next
  case False
  let ?P = "\<lambda>k. int k < maxSteps u \<and> \<not> no_exit sdf u ro rd k"
  define m where "m = (LEAST k. ?P k)"
  from False have "\<exists>k. ?P k"
    by blast
  then have m: "?P m"
    unfolding m_def by (rule LeastI_ex)
  have before: "no_exit sdf u ro rd j" if "j < m" for j
  proof -
    from that have "\<not> ?P j"
      unfolding m_def by (rule not_less_Least)
    moreover from that m have "int j < maxSteps u"
      by linarith
    ultimately show ?thesis
      by blast
  qed
  from m have "dist_at sdf ro rd m < epsilon u \<or>
      \<not> dist_at sdf ro rd m < epsilon u \<and> maxDistance u \<le> depth_at sdf ro rd (Suc m)"
    by (auto simp: no_exit_def)
  with m before show ?thesis
    by blast
qed

section \<open>Hard boolean operations\<close>

text \<open>
  Claim C1. At every point where both children have a value \<open>dL\<close> and \<open>dR\<close>,
  \<open>UnionOp::evaluate\<close> is exactly \<open>min dL dR\<close>, \<open>IntersectionOp::evaluate\<close> is exactly
  \<open>max dL dR\<close> and \<open>DifferenceOp::evaluate\<close> is exactly \<open>max dL (- dR)\<close>.
\<close>

theorem hard_ops_exact:
  assumes "evaluate left p = Some dL" and "evaluate right p = Some dR"
  shows "evaluate (UnionOp left right) p = Some (min dL dR) \<and>
         evaluate (IntersectionOp left right) p = Some (max dL dR) \<and>
         evaluate (DifferenceOp left right) p = Some (max dL (- dR))"
  using assms by (simp add: std_min_eq std_max_eq)

theorem hard_ops_exact_witness:
  "evaluate (Sphere (Vec3 0 0 0) 1) (Vec3 0 0 3) = Some 2 \<and>
   evaluate (Sphere (Vec3 0 0 1) 1) (Vec3 0 0 3) = Some 1 \<and>
   evaluate (UnionOp (Sphere (Vec3 0 0 0) 1) (Sphere (Vec3 0 0 1) 1)) (Vec3 0 0 3)
     = Some (min 2 1) \<and>
   evaluate (IntersectionOp (Sphere (Vec3 0 0 0) 1) (Sphere (Vec3 0 0 1) 1)) (Vec3 0 0 3)
     = Some (max 2 1) \<and>
   evaluate (DifferenceOp (Sphere (Vec3 0 0 0) 1) (Sphere (Vec3 0 0 1) 1)) (Vec3 0 0 3)
     = Some (max 2 (- 1))"
proof -
  have l: "evaluate (Sphere (Vec3 0 0 0) 1) (Vec3 0 0 3) = Some 2"
    by (simp add: vsub_def vlength_axis)
  have r: "evaluate (Sphere (Vec3 0 0 1) 1) (Vec3 0 0 3) = Some 1"
    by (simp add: vsub_def vlength_axis)
  from l r hard_ops_exact [OF l r] show ?thesis
    by blast
qed

section \<open>Smooth boolean operations\<close>

text \<open>
  Claim C3. With \<open>dL\<close> and \<open>dR\<close> the values of the children at \<open>p\<close> and
  \<open>h = max (k - |dL - dR|) 0 / k\<close>, the smooth union is \<open>min dL dR - h^3 * k / 6\<close> and the
  smooth intersection is \<open>max dL dR + h^3 * k / 6\<close>; the smooth difference is the
  intersection formula with \<open>- dR\<close> in the place of \<open>dR\<close>, also inside \<open>h\<close>. For
  \<open>k = 0\<close> the division in \<open>h\<close> has divisor zero in the code as in the formula, and
  there is no value.
\<close>

theorem smooth_ops_formula:
  assumes "evaluate left p = Some dL" and "evaluate right p = Some dR"
  shows "evaluate (SmoothUnionOp left right k) p =
           (if k = 0 then None
            else Some (min dL dR - (max (k - \<bar>dL - dR\<bar>) 0 / k) ^ 3 * k / 6)) \<and>
         evaluate (SmoothIntersectionOp left right k) p =
           (if k = 0 then None
            else Some (max dL dR + (max (k - \<bar>dL - dR\<bar>) 0 / k) ^ 3 * k / 6)) \<and>
         evaluate (SmoothDifferenceOp left right k) p =
           (if k = 0 then None
            else Some (max dL (- dR) + (max (k - \<bar>dL - (- dR)\<bar>) 0 / k) ^ 3 * k / 6))"
  using assms
  by (simp add: SmoothUnionOp_body_eq SmoothIntersectionOp_body_eq SmoothDifferenceOp_body_eq)

theorem smooth_ops_formula_witness:
  "evaluate (Sphere (Vec3 0 0 0) 1) (Vec3 0 0 3) = Some 2 \<and>
   evaluate (Sphere (Vec3 0 0 1) 1) (Vec3 0 0 3) = Some 1 \<and>
   evaluate (SmoothUnionOp (Sphere (Vec3 0 0 0) 1) (Sphere (Vec3 0 0 1) 1) 2) (Vec3 0 0 3)
     = Some (23 / 24) \<and>
   evaluate (SmoothIntersectionOp (Sphere (Vec3 0 0 0) 1) (Sphere (Vec3 0 0 1) 1) 2) (Vec3 0 0 3)
     = Some (49 / 24) \<and>
   evaluate (SmoothDifferenceOp (Sphere (Vec3 0 0 0) 1) (Sphere (Vec3 0 0 1) 1) 2) (Vec3 0 0 3)
     = Some 2"
proof -
  have l: "evaluate (Sphere (Vec3 0 0 0) 1) (Vec3 0 0 3) = Some 2"
    by (simp add: vsub_def vlength_axis)
  have r: "evaluate (Sphere (Vec3 0 0 1) 1) (Vec3 0 0 3) = Some 1"
    by (simp add: vsub_def vlength_axis)
  have "(if (2::real) = 0 then None
         else Some (min 2 1 - (max (2 - \<bar>2 - 1\<bar>) 0 / 2) ^ 3 * 2 / 6)) = Some (23 / 24 :: real)"
    by (simp add: power3_eq_cube)
  moreover have "(if (2::real) = 0 then None
         else Some (max 2 1 + (max (2 - \<bar>2 - 1\<bar>) 0 / 2) ^ 3 * 2 / 6)) = Some (49 / 24 :: real)"
    by (simp add: power3_eq_cube)
  moreover have "(if (2::real) = 0 then None
         else Some (max 2 (- 1) + (max (2 - \<bar>2 - (- 1)\<bar>) 0 / 2) ^ 3 * 2 / 6)) = Some (2 :: real)"
    by simp
  ultimately show ?thesis
    using l r smooth_ops_formula [OF l r, of 2] by (simp only:) 
qed

text \<open>
  Claim C4. The shader's \<open>smoothUnionOp\<close> and the object model's smooth union are
  different functions of \<open>(d1, d2, k)\<close>: at \<open>d1 = d2 = 0\<close> and \<open>k = 1\<close> the shader gives
  \<open>-1/4\<close> and the object model \<open>-1/6\<close>.
\<close>

theorem shader_smooth_union_differs:
  "smoothUnionOp 0 0 1 = Some (- (1 / 4)) \<and>
   SmoothUnionOp_body 1 0 0 = Some (- (1 / 6)) \<and>
   (\<exists>d1 d2 k. 0 < k \<and> smoothUnionOp d1 d2 k \<noteq> SmoothUnionOp_body k d1 d2)"
proof -
  have shader: "smoothUnionOp 0 0 1 = Some (- (1 / 4))"
    by (simp add: smoothUnionOp_def fdiv_def glsl_clamp_def glsl_mix_def)
  have model: "SmoothUnionOp_body 1 0 0 = Some (- (1 / 6))"
    by (simp add: SmoothUnionOp_body_eq)
  have "smoothUnionOp 0 0 1 \<noteq> SmoothUnionOp_body 1 0 0"
    by (simp add: shader model)
  then have "\<exists>d1 d2 k. (0::real) < k \<and> smoothUnionOp d1 d2 k \<noteq> SmoothUnionOp_body k d1 d2"
    by (intro exI [of _ 0] exI [of _ 1]) simp
  with shader model show ?thesis
    by simp
qed

text \<open>
  Claim C5. At every point where both children have a value and for every \<open>k > 0\<close>,
  each smooth operation has a value that differs from the value of its hard counterpart
  by at most \<open>k / 6\<close>; hence, as \<open>k\<close> tends to \<open>0\<close> from above, the value of each smooth
  operation tends to the value of its hard counterpart.
\<close>

theorem smooth_converges_to_hard:
  assumes "evaluate A p = Some a" and "evaluate B p = Some b"
  shows "(\<forall>k>0.
            (\<exists>s u. evaluate (SmoothUnionOp A B k) p = Some s \<and>
                   evaluate (UnionOp A B) p = Some u \<and> \<bar>s - u\<bar> \<le> k / 6) \<and>
            (\<exists>s u. evaluate (SmoothIntersectionOp A B k) p = Some s \<and>
                   evaluate (IntersectionOp A B) p = Some u \<and> \<bar>s - u\<bar> \<le> k / 6) \<and>
            (\<exists>s u. evaluate (SmoothDifferenceOp A B k) p = Some s \<and>
                   evaluate (DifferenceOp A B) p = Some u \<and> \<bar>s - u\<bar> \<le> k / 6)) \<and>
         ((\<lambda>k. the (evaluate (SmoothUnionOp A B k) p))
            \<longlongrightarrow> the (evaluate (UnionOp A B) p)) (at_right 0) \<and>
         ((\<lambda>k. the (evaluate (SmoothIntersectionOp A B k) p))
            \<longlongrightarrow> the (evaluate (IntersectionOp A B) p)) (at_right 0) \<and>
         ((\<lambda>k. the (evaluate (SmoothDifferenceOp A B k) p))
            \<longlongrightarrow> the (evaluate (DifferenceOp A B) p)) (at_right 0)"
proof -
  note un = smooth_union_close [OF assms]
  note inter = smooth_intersection_close [OF assms]
  note diff = smooth_difference_close [OF assms]
  have "\<bar>the (evaluate (SmoothUnionOp A B k) p) - the (evaluate (UnionOp A B) p)\<bar> \<le> k / 6"
    if "0 < k" for k
    using un [OF that] by auto
  then have lim_un: "((\<lambda>k. the (evaluate (SmoothUnionOp A B k) p))
      \<longlongrightarrow> the (evaluate (UnionOp A B) p)) (at_right 0)"
    by (rule tendsto_of_bound)
  have "\<bar>the (evaluate (SmoothIntersectionOp A B k) p)
          - the (evaluate (IntersectionOp A B) p)\<bar> \<le> k / 6"
    if "0 < k" for k
    using inter [OF that] by auto
  then have lim_inter: "((\<lambda>k. the (evaluate (SmoothIntersectionOp A B k) p))
      \<longlongrightarrow> the (evaluate (IntersectionOp A B) p)) (at_right 0)"
    by (rule tendsto_of_bound)
  have "\<bar>the (evaluate (SmoothDifferenceOp A B k) p)
          - the (evaluate (DifferenceOp A B) p)\<bar> \<le> k / 6"
    if "0 < k" for k
    using diff [OF that] by auto
  then have lim_diff: "((\<lambda>k. the (evaluate (SmoothDifferenceOp A B k) p))
      \<longlongrightarrow> the (evaluate (DifferenceOp A B) p)) (at_right 0)"
    by (rule tendsto_of_bound)
  from un inter diff lim_un lim_inter lim_diff show ?thesis
    by blast
qed

theorem smooth_converges_to_hard_witness:
  "evaluate (Sphere (Vec3 0 0 0) 1) (Vec3 0 0 3) = Some 2 \<and>
   evaluate (Sphere (Vec3 0 0 1) 1) (Vec3 0 0 3) = Some 1 \<and>
   (0::real) < 1 \<and>
   (\<exists>s u. evaluate (SmoothUnionOp (Sphere (Vec3 0 0 0) 1) (Sphere (Vec3 0 0 1) 1) 1)
             (Vec3 0 0 3) = Some s \<and>
          evaluate (UnionOp (Sphere (Vec3 0 0 0) 1) (Sphere (Vec3 0 0 1) 1))
             (Vec3 0 0 3) = Some u \<and>
          \<bar>s - u\<bar> \<le> 1 / 6)"
proof -
  have l: "evaluate (Sphere (Vec3 0 0 0) 1) (Vec3 0 0 3) = Some 2"
    by (simp add: vsub_def vlength_axis)
  have r: "evaluate (Sphere (Vec3 0 0 1) 1) (Vec3 0 0 3) = Some 1"
    by (simp add: vsub_def vlength_axis)
  have k: "(0::real) < 1"
    by simp
  from smooth_converges_to_hard [OF l r, THEN conjunct1, rule_format, OF k, THEN conjunct1] l r k
  show ?thesis
    by blast
qed

section \<open>Degenerate geometry\<close>

text \<open>
  Claim C8. \<open>Vec3::normalize\<close> never divides by zero: it always has a value. On a
  vector of length zero that value is the vector itself; on any other vector it is the
  vector with each component divided by the length.
\<close>

theorem normalize_guarded:
  "normalize v \<noteq> None \<and>
   (vlength v = 0 \<longrightarrow> normalize v = Some v) \<and>
   (vlength v \<noteq> 0 \<longrightarrow>
      normalize v = Some (Vec3 (vx v / vlength v) (vy v / vlength v) (vz v / vlength v)))"
  by (simp add: normalize_eq)

theorem normalize_guarded_witness:
  "vlength (Vec3 0 0 0) = 0 \<and> normalize (Vec3 0 0 0) = Some (Vec3 0 0 0) \<and>
   vlength (Vec3 0 0 2) \<noteq> 0 \<and>
   normalize (Vec3 0 0 2) =
     Some (Vec3 (vx (Vec3 0 0 2) / vlength (Vec3 0 0 2)) (vy (Vec3 0 0 2) / vlength (Vec3 0 0 2))
                (vz (Vec3 0 0 2) / vlength (Vec3 0 0 2))) \<and>
   Vec3 (vx (Vec3 0 0 2) / vlength (Vec3 0 0 2)) (vy (Vec3 0 0 2) / vlength (Vec3 0 0 2))
        (vz (Vec3 0 0 2) / vlength (Vec3 0 0 2)) = Vec3 0 0 1"
proof -
  have z: "vlength (Vec3 0 0 0) = 0"
    by (simp add: vlength_axis)
  have n: "vlength (Vec3 0 0 2) \<noteq> 0"
    by (simp add: vlength_axis)
  have v: "Vec3 (vx (Vec3 0 0 2) / vlength (Vec3 0 0 2)) (vy (Vec3 0 0 2) / vlength (Vec3 0 0 2))
        (vz (Vec3 0 0 2) / vlength (Vec3 0 0 2)) = Vec3 0 0 1"
    by (simp add: vlength_axis)
  from z n v normalize_guarded [of "Vec3 0 0 0"] normalize_guarded [of "Vec3 0 0 2"]
  show ?thesis
    by blast
qed

text \<open>
  Claim C9. For a cylinder whose start and end coincide, \<open>Cylinder::evaluate\<close> has a
  value at every point: \<open>normalize\<close> returns the zero axis unchanged, the clamped
  projection parameter is \<open>0\<close>, the closest point is the start point, and the result is
  the distance from the point to the start point minus the radius.
\<close>

theorem cylinder_degenerate:
  "normalize (vsub s s) = Some (vsub s s) \<and>
   cylinder_locals s s p = Some (vsub s s, 0, s) \<and>
   evaluate (Cylinder s s r) p = Some (vlength (vsub p s) - r)"
proof -
  have axis: "vsub s s = Vec3 0 0 0"
    by (simp add: vsub_def)
  have norm: "normalize (vsub s s) = Some (vsub s s)"
    by (simp add: normalize_eq axis vlength_zero_iff)
  have locals: "cylinder_locals s s p = Some (vsub s s, 0, s)"
    by (cases s)
       (simp add: cylinder_locals_def normalize_eq vlength_zero_iff vsub_def Let_def dot_def
          std_min_def std_max_def vadd_def vscale_def vlength_def)
  from norm locals show ?thesis
    by simp
qed

section \<open>Ray marching\<close>

text \<open>
  Claim C2, as the code has it. \<open>rayMarch\<close> starts at \<open>depth = 0\<close>. If passes
  \<open>0, \<dots>, m - 1\<close> take no exit and pass \<open>m < maxSteps\<close> finds \<open>sceneSDF\<close> below
  \<open>epsilon\<close>, it returns the depth reached with \<open>steps = m\<close>. If instead pass \<open>m\<close> adds
  the distance and the depth reaches \<open>maxDistance\<close>, it returns \<open>maxDistance\<close> with
  \<open>steps = maxSteps\<close>. If no pass takes an exit, it returns \<open>maxDistance\<close> with
  \<open>steps = maxSteps - 1\<close> when \<open>maxSteps \<ge> 1\<close>, and with \<open>steps = 0\<close> when
  \<open>maxSteps \<le> 0\<close>.
\<close>

theorem rayMarch_trace:
  "(int m < maxSteps u \<and> (\<forall>j<m. no_exit sdf u ro rd j) \<and>
      dist_at sdf ro rd m < epsilon u \<longrightarrow>
    rayMarch sdf u ro rd =
      \<lparr>ret = depth_at sdf ro rd m, out_steps = int m,
       final_depth = depth_at sdf ro rd m, sdf_calls = Suc m\<rparr>) \<and>
   (int m < maxSteps u \<and> (\<forall>j<m. no_exit sdf u ro rd j) \<and>
      \<not> dist_at sdf ro rd m < epsilon u \<and> maxDistance u \<le> depth_at sdf ro rd (Suc m) \<longrightarrow>
    rayMarch sdf u ro rd =
      \<lparr>ret = maxDistance u, out_steps = maxSteps u,
       final_depth = depth_at sdf ro rd (Suc m), sdf_calls = Suc m\<rparr>) \<and>
   ((\<forall>j. int j < maxSteps u \<longrightarrow> no_exit sdf u ro rd j) \<longrightarrow>
    rayMarch sdf u ro rd =
      \<lparr>ret = maxDistance u,
       out_steps = (if 1 \<le> maxSteps u then maxSteps u - 1 else 0),
       final_depth = depth_at sdf ro rd (nat (maxSteps u)),
       sdf_calls = nat (maxSteps u)\<rparr>)"
proof (intro conjI impI)
  assume a: "int m < maxSteps u \<and> (\<forall>j<m. no_exit sdf u ro rd j) \<and>
    dist_at sdf ro rd m < epsilon u"
  then have "rayMarch sdf u ro rd =
      rayMarch_loop sdf u ro rd (int m) (depth_at sdf ro rd m) (if m = 0 then 0 else int m - 1) m"
    by (intro rayMarch_advance) simp_all
  also have "\<dots> = \<lparr>ret = depth_at sdf ro rd m, out_steps = int m,
          final_depth = depth_at sdf ro rd m, sdf_calls = Suc m\<rparr>"
    using a by (intro rayMarch_loop_hit) (simp_all add: dist_at_def)
  finally show "rayMarch sdf u ro rd = \<lparr>ret = depth_at sdf ro rd m, out_steps = int m,
          final_depth = depth_at sdf ro rd m, sdf_calls = Suc m\<rparr>" .
next
  assume a: "int m < maxSteps u \<and> (\<forall>j<m. no_exit sdf u ro rd j) \<and>
         \<not> dist_at sdf ro rd m < epsilon u \<and> maxDistance u \<le> depth_at sdf ro rd (Suc m)"
  then have "rayMarch sdf u ro rd =
      rayMarch_loop sdf u ro rd (int m) (depth_at sdf ro rd m) (if m = 0 then 0 else int m - 1) m"
    by (intro rayMarch_advance) simp_all
  also have "\<dots> = \<lparr>ret = maxDistance u, out_steps = maxSteps u,
          final_depth = depth_at sdf ro rd (Suc m), sdf_calls = Suc m\<rparr>"
    using a by (subst rayMarch_loop_far) (simp_all add: dist_at_def)
  finally show "rayMarch sdf u ro rd = \<lparr>ret = maxDistance u, out_steps = maxSteps u,
          final_depth = depth_at sdf ro rd (Suc m), sdf_calls = Suc m\<rparr>" .
next
  assume a: "\<forall>j. int j < maxSteps u \<longrightarrow> no_exit sdf u ro rd j"
  let ?m = "nat (maxSteps u)"
  have "rayMarch sdf u ro rd =
      rayMarch_loop sdf u ro rd (int ?m) (depth_at sdf ro rd ?m)
        (if ?m = 0 then 0 else int ?m - 1) ?m"
  proof (cases "0 \<le> maxSteps u")
    case True
    with a show ?thesis
      by (intro rayMarch_advance) simp_all
  next
    case False
    then show ?thesis
      by (simp add: rayMarch_def)
  qed
  also have "\<dots> = \<lparr>ret = maxDistance u, out_steps = (if ?m = 0 then 0 else int ?m - 1),
          final_depth = depth_at sdf ro rd ?m, sdf_calls = ?m\<rparr>"
    by (intro rayMarch_loop_done) simp
  finally show "rayMarch sdf u ro rd = \<lparr>ret = maxDistance u,
          out_steps = (if 1 \<le> maxSteps u then maxSteps u - 1 else 0),
          final_depth = depth_at sdf ro rd (nat (maxSteps u)),
          sdf_calls = nat (maxSteps u)\<rparr>"
    by (simp split: if_splits)
qed

theorem rayMarch_trace_witness:
  "rayMarch vz \<lparr>maxSteps = 3, maxDistance = 10, epsilon = 1 / 1000\<rparr> (Vec3 0 0 5) (Vec3 0 0 (- 1))
     = \<lparr>ret = 5, out_steps = 1, final_depth = 5, sdf_calls = 2\<rparr> \<and>
   rayMarch vz \<lparr>maxSteps = 3, maxDistance = 10, epsilon = 1 / 1000\<rparr> (Vec3 0 0 5) (Vec3 0 0 1)
     = \<lparr>ret = 10, out_steps = 3, final_depth = 15, sdf_calls = 2\<rparr> \<and>
   rayMarch vz \<lparr>maxSteps = 2, maxDistance = 100, epsilon = 1 / 1000\<rparr> (Vec3 0 0 5) (Vec3 0 0 1)
     = \<lparr>ret = 100, out_steps = 1, final_depth = 15, sdf_calls = 2\<rparr>"
proof -
  let ?u = "\<lparr>maxSteps = 3, maxDistance = 10, epsilon = 1 / 1000\<rparr>"
  let ?w = "\<lparr>maxSteps = 2, maxDistance = 100, epsilon = 1 / 1000\<rparr>"
  let ?ro = "Vec3 0 0 5"
  let ?to = "Vec3 0 0 (- 1)"
  let ?away = "Vec3 0 0 1"
  have hit_pre: "int (Suc 0) < maxSteps ?u \<and> (\<forall>j<Suc 0. no_exit vz ?u ?ro ?to j) \<and>
      dist_at vz ?ro ?to (Suc 0) < epsilon ?u"
    by (simp add: no_exit_def dist_at_def vadd_def vscale_def)
  have far_pre: "int (Suc 0) < maxSteps ?u \<and> (\<forall>j<Suc 0. no_exit vz ?u ?ro ?away j) \<and>
      \<not> dist_at vz ?ro ?away (Suc 0) < epsilon ?u \<and>
      maxDistance ?u \<le> depth_at vz ?ro ?away (Suc (Suc 0))"
    by (simp add: no_exit_def dist_at_def vadd_def vscale_def)
  have "no_exit vz ?w ?ro ?away j" if "int j < 2" for j
  proof -
    from that have "j = 0 \<or> j = Suc 0"
      by linarith
    then show ?thesis
      by (auto simp: no_exit_def dist_at_def vadd_def vscale_def)
  qed
  then have all_pre: "\<forall>j. int j < maxSteps ?w \<longrightarrow> no_exit vz ?w ?ro ?away j"
    by simp
  have two: "depth_at vz ?ro ?away 2 = 15"
    by (simp add: numeral_2_eq_2 vadd_def vscale_def)
  from rayMarch_trace [of "Suc 0" ?u vz ?ro ?to] hit_pre
  have "rayMarch vz ?u ?ro ?to =
      \<lparr>ret = depth_at vz ?ro ?to (Suc 0), out_steps = int (Suc 0),
       final_depth = depth_at vz ?ro ?to (Suc 0), sdf_calls = Suc (Suc 0)\<rparr>"
    by blast
  then have hit: "rayMarch vz ?u ?ro ?to =
      \<lparr>ret = 5, out_steps = 1, final_depth = 5, sdf_calls = 2\<rparr>"
    by (simp add: vadd_def vscale_def)
  from rayMarch_trace [of "Suc 0" ?u vz ?ro ?away] far_pre
  have "rayMarch vz ?u ?ro ?away =
      \<lparr>ret = maxDistance ?u, out_steps = maxSteps ?u,
       final_depth = depth_at vz ?ro ?away (Suc (Suc 0)), sdf_calls = Suc (Suc 0)\<rparr>"
    by blast
  then have far: "rayMarch vz ?u ?ro ?away =
      \<lparr>ret = 10, out_steps = 3, final_depth = 15, sdf_calls = 2\<rparr>"
    by (simp add: vadd_def vscale_def)
  from rayMarch_trace [of 0 ?w vz ?ro ?away] all_pre
  have "rayMarch vz ?w ?ro ?away =
      \<lparr>ret = maxDistance ?w,
       out_steps = (if 1 \<le> maxSteps ?w then maxSteps ?w - 1 else 0),
       final_depth = depth_at vz ?ro ?away (nat (maxSteps ?w)),
       sdf_calls = nat (maxSteps ?w)\<rparr>"
    by blast
  then have exhausted: "rayMarch vz ?w ?ro ?away =
      \<lparr>ret = 100, out_steps = 1, final_depth = 15, sdf_calls = 2\<rparr>"
    by (simp add: two)
  from hit far exhausted show ?thesis
    by blast
qed

text \<open>
  With \<open>maxSteps = 0\<close> no pass runs, so no pass takes an exit, and \<open>steps\<close> keeps its
  initial value \<open>0\<close>, which is not \<open>maxSteps - 1 = -1\<close>.
\<close>

theorem rayMarch_exhausted_zero_steps:
  "maxSteps \<lparr>maxSteps = 0, maxDistance = 100, epsilon = 1 / 1000\<rparr> = 0 \<and>
   rayMarch vz \<lparr>maxSteps = 0, maxDistance = 100, epsilon = 1 / 1000\<rparr>
       (Vec3 0 0 5) (Vec3 0 0 (- 1))
     = \<lparr>ret = 100, out_steps = 0, final_depth = 0, sdf_calls = 0\<rparr> \<and>
   out_steps (rayMarch vz \<lparr>maxSteps = 0, maxDistance = 100, epsilon = 1 / 1000\<rparr>
                (Vec3 0 0 5) (Vec3 0 0 (- 1)))
     \<noteq> maxSteps \<lparr>maxSteps = 0, maxDistance = 100, epsilon = 1 / 1000\<rparr> - 1"
  by (simp add: rayMarch_def rayMarch_loop_done)

text \<open>
  Claim C7. With \<open>maxSteps = 0\<close>, \<open>rayMarch\<close> returns at once: the local \<open>depth\<close> is
  still \<open>0\<close>, \<open>sceneSDF\<close> has not been called, \<open>steps\<close> is \<open>0\<close>, and the value returned
  is \<open>maxDistance\<close>, which the shader's \<open>main\<close> treats as a miss.
\<close>

theorem rayMarch_no_steps:
  assumes "maxSteps u = 0"
  shows "rayMarch sdf u ro rd =
           \<lparr>ret = maxDistance u, out_steps = 0, final_depth = 0, sdf_calls = 0\<rparr> \<and>
         \<not> is_hit u (rayMarch sdf u ro rd)"
  using assms by (simp add: rayMarch_def rayMarch_loop_done is_hit_def)

theorem rayMarch_no_steps_witness:
  "maxSteps \<lparr>maxSteps = 0, maxDistance = 50, epsilon = 1 / 1000\<rparr> = 0 \<and>
   rayMarch vz \<lparr>maxSteps = 0, maxDistance = 50, epsilon = 1 / 1000\<rparr>
       (Vec3 0 0 5) (Vec3 0 0 (- 1)) =
     \<lparr>ret = maxDistance \<lparr>maxSteps = 0, maxDistance = 50, epsilon = 1 / 1000\<rparr>,
      out_steps = 0, final_depth = 0, sdf_calls = 0\<rparr> \<and>
   \<not> is_hit \<lparr>maxSteps = 0, maxDistance = 50, epsilon = 1 / 1000\<rparr>
       (rayMarch vz \<lparr>maxSteps = 0, maxDistance = 50, epsilon = 1 / 1000\<rparr>
          (Vec3 0 0 5) (Vec3 0 0 (- 1)))"
proof -
  have z: "maxSteps \<lparr>maxSteps = 0, maxDistance = 50, epsilon = 1 / 1000\<rparr> = 0"
    by simp
  from z rayMarch_no_steps [OF z, of vz "Vec3 0 0 5" "Vec3 0 0 (- 1)"] show ?thesis
    by blast
qed

section \<open>Configuration\<close>

text \<open>
  Claim C6 fails: nothing is rejected. \<open>setRaymarchingParams\<close> with \<open>maxSteps = 0\<close> and
  \<open>epsilon = 0\<close> returns normally with both values stored, and the constructor of a
  smooth union with \<open>k = 0\<close> returns the object, whose \<open>evaluate\<close> then divides by zero.
\<close>

theorem invalid_configuration_accepted:
  "setRaymarchingParams 0 50 0 default_params
     = Inr \<lparr>maxSteps = 0, maxDistance = 50, epsilon = 0\<rparr> \<and>
   new_SmoothUnionOp (Sphere (Vec3 0 0 0) 1) (Sphere (Vec3 0 0 1) 1) 0
     = Inr (SmoothUnionOp (Sphere (Vec3 0 0 0) 1) (Sphere (Vec3 0 0 1) 1) 0) \<and>
   evaluate (SmoothUnionOp (Sphere (Vec3 0 0 0) 1) (Sphere (Vec3 0 0 1) 1) 0) (Vec3 0 0 3) = None"
  by (simp add: setRaymarchingParams_def default_params_def new_SmoothUnionOp_def
        SmoothUnionOp_body_eq)

text \<open>
  Claim C6, as the code has it. \<open>setRaymarchingParams\<close> never fails and stores the three
  values it is given, whatever they are; each smooth constructor never fails and stores
  the \<open>k\<close> it is given, whatever it is. A smooth operation built with \<open>k = 0\<close> has no
  value at any point.
\<close>

theorem configuration_never_rejected:
  "setRaymarchingParams steps distance eps r
     = Inr (r\<lparr>maxSteps := steps, maxDistance := distance, epsilon := eps\<rparr>) \<and>
   new_SmoothUnionOp left right k = Inr (SmoothUnionOp left right k) \<and>
   new_SmoothIntersectionOp left right k = Inr (SmoothIntersectionOp left right k) \<and>
   new_SmoothDifferenceOp left right k = Inr (SmoothDifferenceOp left right k) \<and>
   evaluate (SmoothUnionOp left right 0) p = None \<and>
   evaluate (SmoothIntersectionOp left right 0) p = None \<and>
   evaluate (SmoothDifferenceOp left right 0) p = None"
proof -
  have "evaluate (SmoothUnionOp left right 0) p = None"
    and "evaluate (SmoothIntersectionOp left right 0) p = None"
    and "evaluate (SmoothDifferenceOp left right 0) p = None"
    by (simp_all only: evaluate_None_iff smooth_factors_nonzero.simps simp_thms)
  then show ?thesis
    by (simp only: setRaymarchingParams_def new_SmoothUnionOp_def new_SmoothIntersectionOp_def
          new_SmoothDifferenceOp_def simp_thms)
qed

end
